theory Spec2Isabelle
  imports Main "HOL-Library.Word"
begin

section \<open>Values exchanged with the gateway\<close>

text \<open>
  The client of \<^verbatim>\<open>clamor/gateway/connector.py\<close> receives frames from a websocket,
  decodes them to Python values and sends JSON text back. A frame is a Python \<^verbatim>\<open>str\<close>
  or a \<^verbatim>\<open>bytes\<close> object; a decoded value is what a JSON (or ETF) decoder returns.
  Floating point numbers are left out of the value type.
\<close>

type_synonym byte = "8 word"

datatype json =
    JNull
  | JBool bool
  | JInt int
  | JStr string
  | JList "json list"
  | JObj "(string \<times> json) list"

datatype frame = Text string | Binary "byte list"

text \<open>
  The exceptions the code can raise; \<open>EncodingError\<close> carries \<^verbatim>\<open>str(e)\<close>, and
  \<open>Cancelled\<close> is the cancellation that ends a task whose scope has been cancelled.
\<close>

datatype error =
    EncodingError string
  | TypeError
  | IndexError
  | KeyError string
  | AttributeError
  | ZlibError
  | UnicodeDecodeError
  | OverflowError
  | Cancelled

text \<open>
  What the client does to the outside world, in the order it does it: the transport
  it opens, the task groups and tasks it creates, the scope it cancels, the time it
  sleeps (in milliseconds; the code passes \<^verbatim>\<open>interval / 1000\<close> seconds) and the text it
  sends on the connection.
\<close>

datatype task = ReceiveTask | HeartbeatTask | IdentifyTask

datatype event =
    OpenConnection string
  | CreateTaskGroup
  | Spawn task
  | CancelScope
  | Sleep int
  | Send string

subsection \<open>Python operations on decoded values\<close>

text \<open>Truth value of a Python object, as \<^verbatim>\<open>if x:\<close> tests it.\<close>

fun truthy :: "json \<Rightarrow> bool" where
  "truthy JNull = False"
| "truthy (JBool b) = b"
| "truthy (JInt n) = (n \<noteq> 0)"
| "truthy (JStr s) = (s \<noteq> [])"
| "truthy (JList xs) = (xs \<noteq> [])"
| "truthy (JObj kvs) = (kvs \<noteq> [])"

text \<open>\<^verbatim>\<open>m.get(k)\<close>: only a dict has the method; a missing key gives \<^verbatim>\<open>None\<close>.\<close>

fun dict_get :: "json \<Rightarrow> string \<Rightarrow> error + json" where
  "dict_get (JObj kvs) k = Inr (case map_of kvs k of None \<Rightarrow> JNull | Some v \<Rightarrow> v)"
| "dict_get JNull k = Inl AttributeError"
| "dict_get (JBool b) k = Inl AttributeError"
| "dict_get (JInt n) k = Inl AttributeError"
| "dict_get (JStr s) k = Inl AttributeError"
| "dict_get (JList xs) k = Inl AttributeError"

text \<open>\<^verbatim>\<open>m[k]\<close> with a string key: \<^verbatim>\<open>KeyError\<close> on a dict without it, \<^verbatim>\<open>TypeError\<close> elsewhere.\<close>

fun getitem :: "json \<Rightarrow> string \<Rightarrow> error + json" where
  "getitem (JObj kvs) k = (case map_of kvs k of None \<Rightarrow> Inl (KeyError k) | Some v \<Rightarrow> Inr v)"
| "getitem JNull k = Inl TypeError"
| "getitem (JBool b) k = Inl TypeError"
| "getitem (JInt n) k = Inl TypeError"
| "getitem (JStr s) k = Inl TypeError"
| "getitem (JList xs) k = Inl TypeError"

text \<open>\<^verbatim>\<open>x == 0\<close>: in Python \<^verbatim>\<open>False == 0\<close> holds too.\<close>

fun eq_zero :: "json \<Rightarrow> bool" where
  "eq_zero (JInt n) = (n = 0)"
| "eq_zero (JBool b) = (\<not> b)"
| "eq_zero JNull = False"
| "eq_zero (JStr s) = False"
| "eq_zero (JList xs) = False"
| "eq_zero (JObj kvs) = False"

text \<open>
  \<^verbatim>\<open>x / 1000\<close> is defined on numbers (and booleans) only, and it is a division of
  floats: on an integer whose quotient rounds to \<open>2 ^ 1024\<close> or more, that is from
  \<open>1000 * (2 ^ 1024 - 2 ^ 970)\<close> on in absolute value, it raises \<^verbatim>\<open>OverflowError\<close>.
  The result is kept in milliseconds.
\<close>

definition FLOAT_OVERFLOW :: int where
  "FLOAT_OVERFLOW = 1000 * (2 ^ 1024 - 2 ^ 970)"

fun sleep_millis :: "json \<Rightarrow> error + int" where
  "sleep_millis (JInt n) = (if FLOAT_OVERFLOW \<le> \<bar>n\<bar> then Inl OverflowError else Inr n)"
| "sleep_millis (JBool b) = Inr (if b then 1 else 0)"
| "sleep_millis JNull = Inl TypeError"
| "sleep_millis (JStr s) = Inl TypeError"
| "sleep_millis (JList xs) = Inl TypeError"
| "sleep_millis (JObj kvs) = Inl TypeError"

text \<open>\<^verbatim>\<open>bytearray.endswith\<close>.\<close>

definition endswith :: "'a list \<Rightarrow> 'a list \<Rightarrow> bool" where
  "endswith xs sfx = (length sfx \<le> length xs \<and> drop (length xs - length sfx) xs = sfx)"

section \<open>External collaborators\<close>

text \<open>
  The libraries the client calls are parameters of the model: the streaming
  decompressor \<^verbatim>\<open>zlib.decompressobj()\<close> with its own state \<open>'z\<close> (\<open>None\<close> is
  \<^verbatim>\<open>zlib.error\<close>), the one-shot \<^verbatim>\<open>zlib.decompress\<close>, \<^verbatim>\<open>bytes.decode\<close> (\<open>None\<close> is
  \<^verbatim>\<open>UnicodeDecodeError\<close>), the configured encoder \<^verbatim>\<open>ENCODERS[encoding]\<close> with its
  \<^verbatim>\<open>TYPE\<close>, \<^verbatim>\<open>encode\<close> and \<^verbatim>\<open>decode\<close> (\<open>Inl m\<close> is an exception whose \<^verbatim>\<open>str\<close> is \<open>m\<close>),
  \<^verbatim>\<open>json.dumps\<close> and \<^verbatim>\<open>platform.system()\<close>.
\<close>

record 'z env =
  inflate :: "'z \<Rightarrow> byte list \<Rightarrow> byte list option \<times> 'z"
  zlib_decompress :: "byte list \<Rightarrow> byte list option"
  bytes_decode :: "byte list \<Rightarrow> string option"
  encoder_TYPE :: string
  encoder_encode :: "json \<Rightarrow> frame"
  encoder_decode :: "frame \<Rightarrow> string + json"
  json_dumps :: "json \<Rightarrow> string"
  platform_system :: string

text \<open>
  Modelled from the spec: the table \<^verbatim>\<open>opcodes\<close> of \<^verbatim>\<open>clamor/gateway/opcodes.py\<close>, which is
  not among the sources; the spec lists its well-known entries.
\<close>

definition opcodes :: "string \<Rightarrow> int option" where
  "opcodes = map_of
     [(''DISPATCH'', 0), (''HEARTBEAT'', 1), (''IDENTIFY'', 2), (''RESUME'', 6),
      (''HELLO'', 10), (''HEARTBEAT_ACK'', 11)]"

section \<open>The client object\<close>

text \<open>
  The fields of \<^verbatim>\<open>DiscordWebsocketClient\<close>. The private fields drop their leading
  underscore. \<open>con\<close> and \<open>tg\<close> say whether \<^verbatim>\<open>_con\<close> and \<^verbatim>\<open>_tg\<close> hold an object rather
  than \<^verbatim>\<open>None\<close>; \<open>trace\<close> collects the events of the client, oldest first.
\<close>

record 'z client =
  url :: string
  zlib_compressed :: bool
  buffer :: "byte list"
  inflator :: 'z
  con :: bool
  running :: bool
  tg :: bool
  shard_id :: "int option"
  shard_count :: "int option"
  interval :: json
  last_sequence :: json
  has_ack :: bool
  session_id :: json
  token :: string
  trace :: "event list"

definition VERSION :: string where
  "VERSION = ''6''"

definition ZLIB_SUFFIX :: "byte list" where
  "ZLIB_SUFFIX = [0x00, 0x00, 0xff, 0xff]"

definition format_url :: "'z env \<Rightarrow> 'z client \<Rightarrow> 'z client" where
  "format_url env st =
     (let st1 = st\<lparr>url := url st @ ''/?v='' @ VERSION @ ''&encoding='' @ encoder_TYPE env\<rparr>
      in if zlib_compressed st1 then st1\<lparr>url := url st1 @ ''&compress=zlib-stream''\<rparr> else st1)"

text \<open>\<^verbatim>\<open>__init__\<close>; \<open>z0\<close> is the state of a new \<^verbatim>\<open>zlib.decompressobj()\<close>.\<close>

definition init :: "'z env \<Rightarrow> 'z \<Rightarrow> string \<Rightarrow> bool \<Rightarrow> int option \<Rightarrow> int option \<Rightarrow> 'z client" where
  "init env z0 u compressed sid scount =
     format_url env
       \<lparr>url = u, zlib_compressed = compressed, buffer = [], inflator = z0,
        con = False, running = False, tg = False,
        shard_id = sid, shard_count = scount,
        interval = JInt 0, last_sequence = JNull, has_ack = True,
        session_id = JInt 0, token = [], trace = []\<rparr>"

text \<open>
  The spec's \<open>awaitingAck\<close> is true when the last beat has not been acknowledged; the
  code stores the opposite flag \<^verbatim>\<open>_has_ack\<close>.
\<close>

definition awaitingAck :: "'z client \<Rightarrow> bool" where
  "awaitingAck st = (\<not> has_ack st)"

section \<open>Sending\<close>

text \<open>
  \<^verbatim>\<open>_send(opcode, data)\<close>: a string opcode is looked up in \<^verbatim>\<open>opcodes\<close>, the payload
  \<^verbatim>\<open>{'op': opcode, 'd': data}\<close> is serialised with \<^verbatim>\<open>json.dumps\<close> and sent on \<^verbatim>\<open>_con\<close>.
\<close>

definition resolve_opcode :: "int + string \<Rightarrow> error + int" where
  "resolve_opcode opcode =
     (case opcode of
        Inl n \<Rightarrow> Inr n
      | Inr name \<Rightarrow> (case opcodes name of None \<Rightarrow> Inl (KeyError name) | Some n \<Rightarrow> Inr n))"

definition send :: "'z env \<Rightarrow> 'z client \<Rightarrow> int + string \<Rightarrow> json \<Rightarrow> (error + unit) \<times> 'z client" where
  "send env st opcode data =
     (case resolve_opcode opcode of
        Inl e \<Rightarrow> (Inl e, st)
      | Inr n \<Rightarrow>
          if con st
          then (Inr (), st\<lparr>trace := trace st @ [Send (json_dumps env (JObj [(''op'', JInt n), (''d'', data)]))]\<rparr>)
          else (Inl AttributeError, st))"

section \<open>Connection management\<close>

text \<open>
  \<^verbatim>\<open>on_open\<close> and \<^verbatim>\<open>on_resume\<close> create a task group, store it and spawn two tasks; the
  model records the spawns and stops there (the tasks run concurrently afterwards).
\<close>

definition on_open :: "'z client \<Rightarrow> 'z client" where
  "on_open st = st\<lparr>tg := True, trace := trace st @ [CreateTaskGroup, Spawn ReceiveTask, Spawn IdentifyTask]\<rparr>"

definition on_resume :: "'z client \<Rightarrow> 'z client" where
  "on_resume st = st\<lparr>tg := True, trace := trace st @ [CreateTaskGroup, Spawn HeartbeatTask, Spawn ReceiveTask]\<rparr>"

definition connect :: "'z client \<Rightarrow> 'z client" where
  "connect st = on_open (st\<lparr>trace := trace st @ [OpenConnection (url st)], con := True, running := True\<rparr>)"

definition start :: "'z client \<Rightarrow> string \<Rightarrow> 'z client" where
  "start st tok = connect (st\<lparr>token := tok\<rparr>)"

text \<open>
  \<^verbatim>\<open>resume\<close> is suspended twice before it reads the fields of its payload: in
  \<^verbatim>\<open>close\<close>, while the scope of the stored task group is cancelled (line 232), and
  while the connection is opened (line 235). Other tasks run in the meantime; what
  matters of them here are their assignments to the three fields of the payload:
  \<^verbatim>\<open>_token\<close> (written by \<^verbatim>\<open>start\<close>), \<^verbatim>\<open>_session_id\<close> (by \<^verbatim>\<open>_on_ready\<close>) and
  \<^verbatim>\<open>_last_sequence\<close> (by \<^verbatim>\<open>_receive\<close>).
\<close>

datatype field_write = SetToken string | SetSessionId json | SetLastSequence json

fun apply_write :: "'z client \<Rightarrow> field_write \<Rightarrow> 'z client" where
  "apply_write st (SetToken t) = st\<lparr>token := t\<rparr>"
| "apply_write st (SetSessionId v) = st\<lparr>session_id := v\<rparr>"
| "apply_write st (SetLastSequence v) = st\<lparr>last_sequence := v\<rparr>"

fun apply_writes :: "'z client \<Rightarrow> field_write list \<Rightarrow> 'z client" where
  "apply_writes st [] = st"
| "apply_writes st (w # ws) = apply_writes (apply_write st w) ws"

text \<open>
  \<^verbatim>\<open>close\<close> cancels the scope of the stored task group. \<^verbatim>\<open>resume env inside w1 w2\<close>
  is \<^verbatim>\<open>resume\<close> called by a task that is a child of that task group (\<open>inside\<close>, as
  \<^verbatim>\<open>_heartbeat\<close> is) or by another task, with the writes \<open>w1\<close> and \<open>w2\<close> of the other
  tasks during the two suspensions. For a caller inside the cancelled scope the call
  ends at the cancellation: nothing is opened or sent.
\<close>

definition close :: "'z client \<Rightarrow> (error + unit) \<times> 'z client" where
  "close st =
     (let st1 = st\<lparr>running := False\<rparr>
      in if tg st1 then (Inr (), st1\<lparr>trace := trace st1 @ [CancelScope]\<rparr>)
         else (Inl AttributeError, st1))"

definition resume ::
  "'z env \<Rightarrow> bool \<Rightarrow> field_write list \<Rightarrow> field_write list \<Rightarrow> 'z client \<Rightarrow> (error + unit) \<times> 'z client" where
  "resume env inside w1 w2 st =
     (case (if running st then close st else (Inr (), st)) of
        (Inl e, st1) \<Rightarrow> (Inl e, st1)
      | (Inr u, st1) \<Rightarrow>
          if running st \<and> inside then (Inl Cancelled, st1)
          else
            (let st1' = (if running st then apply_writes st1 w1 else st1);
                 st1'' = apply_writes (st1'\<lparr>trace := trace st1' @ [OpenConnection (url st1')]\<rparr>) w2;
                 st2 = st1''\<lparr>con := True, running := True\<rparr>
             in case send env st2 (Inr ''RESUME'')
                       (JObj [(''token'', JStr (token st2)),
                              (''session_id'', session_id st2),
                              (''seq'', last_sequence st2)]) of
                  (Inl e, st3) \<Rightarrow> (Inl e, st3)
                | (Inr u', st3) \<Rightarrow> (Inr (), on_open st3)))"

text \<open>\<^verbatim>\<open>if self.shard_id and self.shard_count\<close> on optional integers.\<close>

definition truthy_opt :: "int option \<Rightarrow> bool" where
  "truthy_opt x = (case x of None \<Rightarrow> False | Some n \<Rightarrow> n \<noteq> 0)"

definition identify_payload :: "'z env \<Rightarrow> 'z client \<Rightarrow> json" where
  "identify_payload env st =
     JObj ([(''token'', JStr (token st)),
            (''properties'', JObj [(''$os'', JStr (platform_system env)),
                                   (''$browser'', JStr ''clamor''),
                                   (''$device'', JStr ''clamor'')]),
            (''compress'', JBool True),
            (''large_threshold'', JInt 250)]
           @ (if truthy_opt (shard_id st) \<and> truthy_opt (shard_count st)
              then [(''shard'', JList [JInt (the (shard_id st)), JInt (the (shard_count st))])]
              else []))"

definition identify :: "'z env \<Rightarrow> 'z client \<Rightarrow> (error + unit) \<times> 'z client" where
  "identify env st = send env st (Inr ''IDENTIFY'') (identify_payload env st)"

section \<open>Heartbeat\<close>

text \<open>
  One call of \<^verbatim>\<open>_heartbeat\<close>, that is one tick: \<open>st\<close> is the client when the sleep is
  over. The tick runs in the heartbeat task, a child of the stored task group, so
  its call of \<^verbatim>\<open>resume\<close> is one from inside.
\<close>

definition heartbeat ::
  "'z env \<Rightarrow> field_write list \<Rightarrow> field_write list \<Rightarrow> 'z client \<Rightarrow> (error + unit) \<times> 'z client" where
  "heartbeat env w1 w2 st =
     (case sleep_millis (interval st) of
        Inl e \<Rightarrow> (Inl e, st)
      | Inr ms \<Rightarrow>
          (let st1 = st\<lparr>trace := trace st @ [Sleep ms]\<rparr>
           in if has_ack st1
              then (case send env st1 (Inl 1) (last_sequence st1) of
                      (Inl e, st2) \<Rightarrow> (Inl e, st2)
                    | (Inr u, st2) \<Rightarrow> (Inr (), st2\<lparr>has_ack := False\<rparr>))
              else resume env True w1 w2 st1))"

section \<open>Internal handlers\<close>

definition on_hello :: "'z client \<Rightarrow> json \<Rightarrow> (error + unit) \<times> 'z client" where
  "on_hello st data =
     (case getitem data ''heartbeat_interval'' of
        Inl e \<Rightarrow> (Inl e, st)
      | Inr v \<Rightarrow>
          (let st1 = st\<lparr>interval := v\<rparr>
           in if tg st1 then (Inr (), st1\<lparr>trace := trace st1 @ [Spawn HeartbeatTask]\<rparr>)
              else (Inl AttributeError, st1)))"

definition on_heartbeat_ack :: "'z client \<Rightarrow> json \<Rightarrow> (error + unit) \<times> 'z client" where
  "on_heartbeat_ack st data = (Inr (), st\<lparr>has_ack := True\<rparr>)"

definition on_ready :: "'z client \<Rightarrow> json \<Rightarrow> (error + unit) \<times> 'z client" where
  "on_ready st data =
     (case getitem data ''session_id'' of
        Inl e \<Rightarrow> (Inl e, st)
      | Inr v \<Rightarrow> (Inr (), st\<lparr>session_id := v\<rparr>))"

text \<open>
  Modelled from the spec: \<^verbatim>\<open>Emitter.emit\<close> of \<^verbatim>\<open>clamor.utils\<close>, which is not among the
  sources. The spec describes it as "register handler for key, emit(key, payload)";
  the listeners here are the three that \<^verbatim>\<open>__init__\<close> registers, and a key without
  listener changes nothing.
\<close>

definition emit :: "'z client \<Rightarrow> json \<Rightarrow> json \<Rightarrow> (error + unit) \<times> 'z client" where
  "emit st key data =
     (if Some key = map_option JInt (opcodes ''HELLO'') then on_hello st data
      else if Some key = map_option JInt (opcodes ''HEARTBEAT_ACK'') then on_heartbeat_ack st data
      else if key = JStr ''READY'' then on_ready st data
      else (Inr (), st))"

section \<open>Receiving\<close>

text \<open>\<^verbatim>\<open>self.buffer.extend(message)\<close>: a non-empty \<^verbatim>\<open>str\<close> is not an iterable of integers.\<close>

definition extend_buffer :: "'z client \<Rightarrow> frame \<Rightarrow> (error + unit) \<times> 'z client" where
  "extend_buffer st m =
     (case m of
        Binary bs \<Rightarrow> (Inr (), st\<lparr>buffer := buffer st @ bs\<rparr>)
      | Text s \<Rightarrow> if s = [] then (Inr (), st) else (Inl TypeError, st))"

text \<open>
  The branch for a connection without compression: \<^verbatim>\<open>message[0]\<close> is compared with
  \<^verbatim>\<open>'{'\<close> and with \<^verbatim>\<open>131\<close>; a string never equals \<^verbatim>\<open>131\<close> and a byte never equals \<^verbatim>\<open>'{'\<close>.
\<close>

definition standalone :: "'z env \<Rightarrow> frame \<Rightarrow> error + frame" where
  "standalone env m =
     (case m of
        Text s \<Rightarrow>
          (case s of
             [] \<Rightarrow> Inl IndexError
           | c # cs \<Rightarrow> if c \<noteq> CHR ''{'' then Inl TypeError else Inr m)
      | Binary bs \<Rightarrow>
          (case bs of
             [] \<Rightarrow> Inl IndexError
           | b # bs' \<Rightarrow>
               if b \<noteq> 131
               then (case zlib_decompress env bs of
                       None \<Rightarrow> Inl ZlibError
                     | Some out \<Rightarrow>
                         (case bytes_decode env out of
                            None \<Rightarrow> Inl UnicodeDecodeError
                          | Some s \<Rightarrow> Inr (Text s)))
               else Inr m))"

text \<open>Lines 109 to 115 of \<^verbatim>\<open>_receive\<close>: from the frame to what the encoder is given.\<close>

definition unpack :: "'z env \<Rightarrow> 'z client \<Rightarrow> frame \<Rightarrow> (error + frame) \<times> 'z client" where
  "unpack env st m =
     (if zlib_compressed st
      then (case extend_buffer st m of
              (Inl e, st1) \<Rightarrow> (Inl e, st1)
            | (Inr u, st1) \<Rightarrow>
                if endswith (buffer st1) ZLIB_SUFFIX
                then (case inflate env (inflator st1) (buffer st1) of
                        (None, z) \<Rightarrow> (Inl ZlibError, st1\<lparr>inflator := z\<rparr>)
                      | (Some out, z) \<Rightarrow>
                          (case bytes_decode env out of
                             None \<Rightarrow> (Inl UnicodeDecodeError, st1\<lparr>inflator := z\<rparr>)
                           | Some s \<Rightarrow> (Inr (Text s), st1\<lparr>inflator := z, buffer := []\<rparr>)))
                else (Inr m, st1))
      else (case standalone env m of
              Inl e \<Rightarrow> (Inl e, st)
            | Inr m' \<Rightarrow> (Inr m', st)))"

text \<open>Lines 117 to 126 of \<^verbatim>\<open>_receive\<close>: decoding and the update of the sequence.\<close>

definition decode_message :: "'z env \<Rightarrow> 'z client \<Rightarrow> frame \<Rightarrow> (error + json) \<times> 'z client" where
  "decode_message env st m =
     (case encoder_decode env m of
        Inl msg \<Rightarrow> (Inl (EncodingError msg), st)
      | Inr v \<Rightarrow>
          (case dict_get v ''s'' of
             Inl e \<Rightarrow> (Inl e, st)
           | Inr s \<Rightarrow> (Inr v, if truthy s then st\<lparr>last_sequence := s\<rparr> else st)))"

definition receive :: "'z env \<Rightarrow> 'z client \<Rightarrow> frame \<Rightarrow> (error + json) \<times> 'z client" where
  "receive env st m =
     (case unpack env st m of
        (Inl e, st1) \<Rightarrow> (Inl e, st1)
      | (Inr m', st1) \<Rightarrow> decode_message env st1 m')"

text \<open>The body of the loop of \<^verbatim>\<open>_receive_task\<close> after \<^verbatim>\<open>_receive\<close> has returned.\<close>

definition route :: "'z client \<Rightarrow> json \<Rightarrow> (error + unit) \<times> 'z client" where
  "route st message =
     (case getitem message ''op'' of
        Inl e \<Rightarrow> (Inl e, st)
      | Inr opc \<Rightarrow>
          (case getitem message (if eq_zero opc then ''t'' else ''op'') of
             Inl e \<Rightarrow> (Inl e, st)
           | Inr key \<Rightarrow>
               (case getitem message ''d'' of
                  Inl e \<Rightarrow> (Inl e, st)
                | Inr data \<Rightarrow> emit st key data)))"

text \<open>
  \<^verbatim>\<open>_receive_task\<close> on the frames the connection delivers, in order. It returns the
  outcome, the client and the frames it has not taken: an exception leaves the loop,
  and so does \<^verbatim>\<open>_running\<close> being false; with no frame left the task waits in
  \<^verbatim>\<open>get_message\<close>.
\<close>

fun receive_task :: "'z env \<Rightarrow> 'z client \<Rightarrow> frame list \<Rightarrow> (error + unit) \<times> 'z client \<times> frame list" where
  "receive_task env st [] = (Inr (), st, [])"
| "receive_task env st (m # ms) =
     (if \<not> running st then (Inr (), st, m # ms)
      else (case receive env st m of
              (Inl e, st1) \<Rightarrow> (Inl e, st1, ms)
            | (Inr message, st1) \<Rightarrow>
                (case route st1 message of
                   (Inl e, st2) \<Rightarrow> (Inl e, st2, ms)
                 | (Inr u, st2) \<Rightarrow> receive_task env st2 ms)))"

text \<open>The texts a trace has sent, oldest first.\<close>

definition sent :: "event list \<Rightarrow> string list" where
  "sent tr = concat (map (\<lambda>e. case e of Send x \<Rightarrow> [x] | _ \<Rightarrow> []) tr)"

section \<open>A concrete environment\<close>

text \<open>
  To run the model on concrete frames: an environment whose decoder knows four texts
  and fails with the message \<open>''Expecting value''\<close> on everything else, whose
  decompressor only strips the four bytes of the terminator and counts its calls,
  whose bytes are decoded through a table of ten characters (any other byte is a
  \<^verbatim>\<open>UnicodeDecodeError\<close>), and whose \<^verbatim>\<open>json.dumps\<close> writes a value the way
  \<^verbatim>\<open>json.dumps\<close> does, except that it escapes nothing in a string. \<open>toy_client\<close> is a client
  built by \<^verbatim>\<open>__init__\<close> with the default compression, after \<^verbatim>\<open>start('token')\<close>.
\<close>

definition toy_table :: "(string \<times> json) list" where
  "toy_table =
     [(''{seq5}'', JObj [(''op'', JInt 0), (''t'', JStr ''MESSAGE_CREATE''), (''s'', JInt 5), (''d'', JObj [])]),
      (''{seq3}'', JObj [(''op'', JInt 0), (''t'', JStr ''MESSAGE_CREATE''), (''s'', JInt 3), (''d'', JObj [])]),
      (''{hello}'', JObj [(''op'', JInt 10), (''d'', JObj [(''heartbeat_interval'', JInt 45000)]),
                          (''s'', JNull), (''t'', JNull)]),
      (''{ack}'', JObj [(''op'', JInt 11), (''d'', JNull), (''s'', JNull), (''t'', JNull)])]"

definition toy_decode :: "frame \<Rightarrow> string + json" where
  "toy_decode m =
     (case m of
        Text s \<Rightarrow> (case map_of toy_table s of None \<Rightarrow> Inl ''Expecting value'' | Some v \<Rightarrow> Inr v)
      | Binary bs \<Rightarrow> Inl ''Expecting value'')"

definition toy_chars :: "(byte \<times> char) list" where
  "toy_chars =
     [(0x7b, CHR ''{''), (0x7d, CHR ''}''), (0x73, CHR ''s''), (0x65, CHR ''e''),
      (0x71, CHR ''q''), (0x35, CHR ''5''), (0x33, CHR ''3''), (0x61, CHR ''a''),
      (0x63, CHR ''c''), (0x6b, CHR ''k'')]"

fun digit :: "nat \<Rightarrow> char" where
  "digit n = ''0123456789'' ! n"

function nat_text :: "nat \<Rightarrow> string" where
  "nat_text n = (if n < 10 then [digit n] else nat_text (n div 10) @ [digit (n mod 10)])"
  by pat_completeness auto
termination
  by (relation "measure id") auto

declare nat_text.simps [simp del]

definition int_text :: "int \<Rightarrow> string" where
  "int_text i = (if i < 0 then CHR ''-'' # nat_text (nat (- i)) else nat_text (nat i))"

definition quote :: "string \<Rightarrow> string" where
  "quote s = CHR 0x22 # s @ [CHR 0x22]"

fun commas :: "string list \<Rightarrow> string" where
  "commas [] = []"
| "commas [x] = x"
| "commas (x # y # zs) = x @ '', '' @ commas (y # zs)"

primrec toy_dumps :: "json \<Rightarrow> string" where
  "toy_dumps JNull = ''null''"
| "toy_dumps (JBool b) = (if b then ''true'' else ''false'')"
| "toy_dumps (JInt n) = int_text n"
| "toy_dumps (JStr s) = quote s"
| "toy_dumps (JList xs) = ''['' @ commas (map toy_dumps xs) @ '']''"
| "toy_dumps (JObj kvs) =
     ''{'' @ commas (map (\<lambda>(k, t). quote k @ '': '' @ t) (map (map_prod id toy_dumps) kvs)) @ ''}''"

definition toy_env :: "nat env" where
  "toy_env =
     \<lparr>inflate = (\<lambda>z bs. (Some (take (length bs - 4) bs), Suc z)),
      zlib_decompress = (\<lambda>bs. Some bs),
      bytes_decode = (\<lambda>bs. those (map (map_of toy_chars) bs)),
      encoder_TYPE = ''json'',
      encoder_encode = (\<lambda>v. Text []),
      encoder_decode = toy_decode,
      json_dumps = toy_dumps,
      platform_system = ''Linux''\<rparr>"

definition toy_client :: "nat client" where
  "toy_client = start (init toy_env 0 ''wss://gateway.discord.gg'' True None None) ''token''"

lemmas toy_defs = toy_client_def toy_env_def toy_decode_def toy_table_def toy_chars_def start_def connect_def
  on_open_def init_def format_url_def VERSION_def

section \<open>The receive path\<close>

lemma unpack_last_sequence: "last_sequence (snd (unpack env st m)) = last_sequence st"
  by (auto simp: unpack_def extend_buffer_def split: frame.splits sum.splits option.splits prod.splits)

lemma decode_message_error:
  "fst (decode_message env st m) = Inl e \<Longrightarrow> snd (decode_message env st m) = st"
  by (auto simp: decode_message_def split: sum.splits)

lemma toy_bad:
  "receive toy_env toy_client (Binary [0x7b, 0x73]) =
     (Inl (EncodingError ''Expecting value''), toy_client\<lparr>buffer := [0x7b, 0x73]\<rparr>)"
  by (simp add: receive_def unpack_def extend_buffer_def endswith_def ZLIB_SUFFIX_def
      decode_message_def toy_defs)

text \<open>
  C10: when \<^verbatim>\<open>_receive\<close> raises (an \<open>EncodingError\<close> from the decoder, or any other
  exception), the last sequence number of the client is the one it had before the
  call: the sequence is written only after the decoder has returned a message.
\<close>

theorem receive_error_keeps_sequence:
  "fst (receive env st m) = Inl e \<Longrightarrow> last_sequence (snd (receive env st m)) = last_sequence st"
proof -
  assume err: "fst (receive env st m) = Inl e"
  obtain r st1 where u: "unpack env st m = (r, st1)" by (cases "unpack env st m")
  have keep: "last_sequence st1 = last_sequence st"
    using unpack_last_sequence [of env st m] u by simp
  show ?thesis
  proof (cases r)
    case (Inl e')
    with u keep show ?thesis by (simp add: receive_def)
  next
    case (Inr m')
    with u err have "fst (decode_message env st1 m') = Inl e" by (simp add: receive_def)
    then have "snd (decode_message env st1 m') = st1" by (rule decode_message_error)
    with u Inr keep show ?thesis by (simp add: receive_def)
  qed
qed

theorem receive_error_keeps_sequence_witness:
  "fst (receive toy_env toy_client (Binary [0x7b, 0x73])) = Inl (EncodingError ''Expecting value'')
   \<and> last_sequence (snd (receive toy_env toy_client (Binary [0x7b, 0x73]))) = last_sequence toy_client"
proof -
  have h: "fst (receive toy_env toy_client (Binary [0x7b, 0x73])) = Inl (EncodingError ''Expecting value'')"
    by (simp add: toy_bad)
  show ?thesis using h receive_error_keeps_sequence [OF h] by simp
qed

lemma toy_seq5:
  "receive toy_env toy_client (Binary [0x7b, 0x73, 0x65, 0x71, 0x35, 0x7d, 0x00, 0x00, 0xff, 0xff]) =
     (Inr (JObj [(''op'', JInt 0), (''t'', JStr ''MESSAGE_CREATE''), (''s'', JInt 5), (''d'', JObj [])]),
      toy_client\<lparr>inflator := Suc 0, last_sequence := JInt 5\<rparr>)"
  by (simp add: receive_def unpack_def extend_buffer_def endswith_def ZLIB_SUFFIX_def
      decode_message_def toy_defs)

lemma toy_seq3:
  "receive toy_env (toy_client\<lparr>inflator := Suc 0, last_sequence := JInt 5\<rparr>)
       (Binary [0x7b, 0x73, 0x65, 0x71, 0x33, 0x7d, 0x00, 0x00, 0xff, 0xff]) =
     (Inr (JObj [(''op'', JInt 0), (''t'', JStr ''MESSAGE_CREATE''), (''s'', JInt 3), (''d'', JObj [])]),
      toy_client\<lparr>inflator := Suc (Suc 0), last_sequence := JInt 3\<rparr>)"
  by (simp add: receive_def unpack_def extend_buffer_def endswith_def ZLIB_SUFFIX_def
      decode_message_def toy_defs)

text \<open>
  C1, as the code has it: when \<^verbatim>\<open>_receive\<close> returns a message whose \<^verbatim>\<open>'s'\<close> is an
  integer other than zero, the last sequence number of the client becomes that
  integer; when the message has no \<^verbatim>\<open>'s'\<close>, or \<^verbatim>\<open>None\<close> there, the last sequence number
  stays what it was. The new value is not compared with the old one.
\<close>

theorem receive_sequence_update:
  assumes "receive env st m = (Inr message, st')"
  shows "(dict_get message ''s'' = Inr (JInt n) \<and> n \<noteq> 0 \<longrightarrow> last_sequence st' = JInt n)
       \<and> (dict_get message ''s'' = Inr JNull \<longrightarrow> last_sequence st' = last_sequence st)"
proof -
  obtain r st1 where u: "unpack env st m = (r, st1)" by (cases "unpack env st m")
  have keep: "last_sequence st1 = last_sequence st"
    using unpack_last_sequence [of env st m] u by simp
  from assms u obtain m' where r: "r = Inr m'" and d: "decode_message env st1 m' = (Inr message, st')"
    by (cases r) (auto simp: receive_def)
  from d have "last_sequence st' =
      (case dict_get message ''s'' of Inl e \<Rightarrow> last_sequence st1
       | Inr s \<Rightarrow> if truthy s then s else last_sequence st1)"
    by (auto simp: decode_message_def split: sum.splits if_splits)
  with keep show ?thesis by auto
qed

theorem receive_sequence_update_witness:
  "receive toy_env toy_client (Binary [0x7b, 0x73, 0x65, 0x71, 0x35, 0x7d, 0x00, 0x00, 0xff, 0xff]) =
     (Inr (JObj [(''op'', JInt 0), (''t'', JStr ''MESSAGE_CREATE''), (''s'', JInt 5), (''d'', JObj [])]),
      toy_client\<lparr>inflator := Suc 0, last_sequence := JInt 5\<rparr>)
   \<and> dict_get (JObj [(''op'', JInt 0), (''t'', JStr ''MESSAGE_CREATE''), (''s'', JInt 5), (''d'', JObj [])]) ''s''
       = Inr (JInt 5)
   \<and> (5::int) \<noteq> 0
   \<and> last_sequence (toy_client\<lparr>inflator := Suc 0, last_sequence := JInt 5\<rparr>) = JInt 5"
  using receive_sequence_update [OF toy_seq5, of 5] toy_seq5 by simp

text \<open>
  The claim C1 as stated fails: a message with sequence 5 followed by a message with
  sequence 3 leaves the client with 3 where it had 5.
\<close>

theorem sequence_decreases_counterexample:
  "last_sequence (snd (receive toy_env toy_client
       (Binary [0x7b, 0x73, 0x65, 0x71, 0x35, 0x7d, 0x00, 0x00, 0xff, 0xff]))) = JInt 5
   \<and> last_sequence (snd (receive toy_env
         (snd (receive toy_env toy_client
            (Binary [0x7b, 0x73, 0x65, 0x71, 0x35, 0x7d, 0x00, 0x00, 0xff, 0xff])))
         (Binary [0x7b, 0x73, 0x65, 0x71, 0x33, 0x7d, 0x00, 0x00, 0xff, 0xff]))) = JInt 3"
  by (simp add: toy_seq5 toy_seq3)

section \<open>Frames of a compressed stream\<close>

text \<open>
  C2, at a first chunk \<^verbatim>\<open>78 9c\<close> of a compressed stream, which does not end with the
  terminator: the chunk stays in the buffer, and \<^verbatim>\<open>_receive\<close> goes on to the decoder
  with the raw chunk. Its outcome is an \<open>EncodingError\<close> when the decoder fails and
  a message when the decoder returns a dict; it is never "no message yet".
\<close>

theorem partial_chunk_is_decoded:
  "fst (receive env (st\<lparr>zlib_compressed := True, buffer := []\<rparr>) (Binary [0x78, 0x9c])) =
     (case encoder_decode env (Binary [0x78, 0x9c]) of
        Inl msg \<Rightarrow> Inl (EncodingError msg)
      | Inr v \<Rightarrow> (case dict_get v ''s'' of Inl e \<Rightarrow> Inl e | Inr s \<Rightarrow> Inr v))
   \<and> buffer (snd (receive env (st\<lparr>zlib_compressed := True, buffer := []\<rparr>) (Binary [0x78, 0x9c]))) =
       [0x78, 0x9c]"
  by (simp add: receive_def unpack_def extend_buffer_def endswith_def ZLIB_SUFFIX_def
      decode_message_def split: sum.splits)

section \<open>A decoder failure in the receive loop\<close>

lemma toy_running: "running toy_client"
  by (simp add: toy_defs)

lemma toy_unpack_bad:
  "unpack toy_env toy_client (Binary [0x7b, 0x7d, 0x00, 0x00, 0xff, 0xff]) =
     (Inr (Text ''{}''), toy_client\<lparr>inflator := Suc 0\<rparr>)"
  by (simp add: unpack_def extend_buffer_def endswith_def ZLIB_SUFFIX_def toy_defs)

lemma toy_decode_bad: "encoder_decode toy_env (Text ''{}'') = Inl ''Expecting value''"
  by (simp add: toy_defs)

text \<open>
  C3, as the code has it: when the decoder fails on what a frame unpacks to,
  \<^verbatim>\<open>_receive\<close> raises an \<open>EncodingError\<close> with the decoder's message, and
  \<^verbatim>\<open>_receive_task\<close>, which has no handler, ends with that error: the frames after
  the failing one are not taken.
\<close>

theorem decode_failure_leaves_receive_task:
  assumes "running st" and "unpack env st m = (Inr m', st1)" and "encoder_decode env m' = Inl msg"
  shows "receive env st m = (Inl (EncodingError msg), st1)
       \<and> receive_task env st (m # ms) = (Inl (EncodingError msg), st1, ms)"
proof -
  have r: "receive env st m = (Inl (EncodingError msg), st1)"
    using assms(2,3) by (simp add: receive_def decode_message_def)
  with assms(1) show ?thesis by simp
qed

theorem decode_failure_leaves_receive_task_witness:
  "running toy_client
   \<and> unpack toy_env toy_client (Binary [0x7b, 0x7d, 0x00, 0x00, 0xff, 0xff]) =
       (Inr (Text ''{}''), toy_client\<lparr>inflator := Suc 0\<rparr>)
   \<and> encoder_decode toy_env (Text ''{}'') = Inl ''Expecting value''
   \<and> receive toy_env toy_client (Binary [0x7b, 0x7d, 0x00, 0x00, 0xff, 0xff]) =
       (Inl (EncodingError ''Expecting value''), toy_client\<lparr>inflator := Suc 0\<rparr>)
   \<and> receive_task toy_env toy_client
         [Binary [0x7b, 0x7d, 0x00, 0x00, 0xff, 0xff],
          Binary [0x7b, 0x73, 0x65, 0x71, 0x35, 0x7d, 0x00, 0x00, 0xff, 0xff]] =
       (Inl (EncodingError ''Expecting value''), toy_client\<lparr>inflator := Suc 0\<rparr>,
        [Binary [0x7b, 0x73, 0x65, 0x71, 0x35, 0x7d, 0x00, 0x00, 0xff, 0xff]])"
  using decode_failure_leaves_receive_task [OF toy_running toy_unpack_bad toy_decode_bad]
    toy_running toy_unpack_bad toy_decode_bad
  by simp

text \<open>
  The claim C3 as stated fails: of two complete frames, the first of which the decoder
  rejects, the loop takes the first, ends with the \<open>EncodingError\<close> and leaves the
  second, which the decoder would accept, untaken.
\<close>

theorem receive_task_stops_counterexample:
  "receive_task toy_env toy_client
       [Binary [0x7b, 0x7d, 0x00, 0x00, 0xff, 0xff],
        Binary [0x7b, 0x73, 0x65, 0x71, 0x35, 0x7d, 0x00, 0x00, 0xff, 0xff]] =
     (Inl (EncodingError ''Expecting value''), toy_client\<lparr>inflator := Suc 0\<rparr>,
      [Binary [0x7b, 0x73, 0x65, 0x71, 0x35, 0x7d, 0x00, 0x00, 0xff, 0xff]])"
  by (simp add: toy_running receive_def toy_unpack_bad decode_message_def toy_decode_bad)

section \<open>Resume\<close>

lemma resolve_RESUME: "resolve_opcode (Inr ''RESUME'') = Inr 6"
  by (simp add: resolve_opcode_def opcodes_def)

lemma resolve_IDENTIFY: "resolve_opcode (Inr ''IDENTIFY'') = Inr 2"
  by (simp add: resolve_opcode_def opcodes_def)

lemma apply_writes_fields:
  "apply_writes st ws =
     st\<lparr>token := token (apply_writes st ws), session_id := session_id (apply_writes st ws),
        last_sequence := last_sequence (apply_writes st ws)\<rparr>"
proof (induction ws arbitrary: st)
  case Nil
  show ?case by simp
next
  case (Cons w ws)
  have "apply_writes (apply_write st w) ws =
      (apply_write st w)\<lparr>token := token (apply_writes (apply_write st w) ws),
        session_id := session_id (apply_writes (apply_write st w) ws),
        last_sequence := last_sequence (apply_writes (apply_write st w) ws)\<rparr>"
    by (rule Cons.IH)
  then show ?case by (cases w) simp_all
qed

lemma apply_writes_append: "apply_writes st (ws @ vs) = apply_writes (apply_writes st ws) vs"
  by (induction ws arbitrary: st) simp_all

lemma apply_writes_commute:
  assumes "\<And>s w. apply_write (f s) w = f (apply_write s w)"
  shows "apply_writes (f st) ws = f (apply_writes st ws)"
  by (induction ws arbitrary: st) (simp_all add: assms)

lemma apply_writes_running: "apply_writes (st\<lparr>running := r\<rparr>) ws = (apply_writes st ws)\<lparr>running := r\<rparr>"
proof (rule apply_writes_commute)
  fix s :: "'a client" and w
  show "apply_write (s\<lparr>running := r\<rparr>) w = (apply_write s w)\<lparr>running := r\<rparr>"
    by (cases w) simp_all
qed

lemma apply_writes_trace: "apply_writes (st\<lparr>trace := tr\<rparr>) ws = (apply_writes st ws)\<lparr>trace := tr\<rparr>"
proof (rule apply_writes_commute)
  fix s :: "'a client" and w
  show "apply_write (s\<lparr>trace := tr\<rparr>) w = (apply_write s w)\<lparr>trace := tr\<rparr>"
    by (cases w) simp_all
qed

lemma apply_writes_other:
  "trace (apply_writes st ws) = trace st"
  "url (apply_writes st ws) = url st"
  "running (apply_writes st ws) = running st"
  "tg (apply_writes st ws) = tg st"
  "con (apply_writes st ws) = con st"
  by (subst apply_writes_fields, simp)+

text \<open>
  What \<^verbatim>\<open>resume\<close> does for a caller outside the task group, when \<^verbatim>\<open>close\<close> finds a
  task group to cancel: the statements of the method in their order, with the fields
  of the payload read after the writes of the other tasks.
\<close>

lemma resume_result:
  assumes "running st \<longrightarrow> tg st"
  shows "resume env False w1 w2 st =
     (Inr (), (apply_writes st (if running st then w1 @ w2 else w2))
        \<lparr>running := True, con := True, tg := True,
         trace := trace st @ (if running st then [CancelScope] else []) @
           [OpenConnection (url st),
            Send (json_dumps env (JObj [(''op'', JInt 6),
              (''d'', JObj
                 [(''token'', JStr (token (apply_writes st (if running st then w1 @ w2 else w2)))),
                  (''session_id'', session_id (apply_writes st (if running st then w1 @ w2 else w2))),
                  (''seq'', last_sequence (apply_writes st (if running st then w1 @ w2 else w2)))])])),
            CreateTaskGroup, Spawn ReceiveTask, Spawn IdentifyTask]\<rparr>)"
  using assms
  by (simp add: resume_def close_def send_def resolve_RESUME on_open_def Let_def
      apply_writes_append apply_writes_running apply_writes_trace apply_writes_other)

lemma resume_inside:
  assumes "running st" and "tg st"
  shows "resume env True w1 w2 st = (Inl Cancelled, st\<lparr>running := False, trace := trace st @ [CancelScope]\<rparr>)"
  using assms by (simp add: resume_def close_def Let_def)

lemma toy_con: "con toy_client"
  by (simp add: toy_defs)

lemma toy_fields:
  "token toy_client = ''token'' \<and> session_id toy_client = JInt 0 \<and> last_sequence toy_client = JNull
   \<and> running toy_client \<and> tg toy_client"
  by (simp add: toy_defs)

text \<open>
  C6, as the code has it: the resume command that \<^verbatim>\<open>resume\<close> sends (for a caller
  outside the task group) has opcode 6 and as data exactly the token, the session id
  and the last sequence number that the client has when the payload is built, after
  the two suspensions: the writes of other tasks during them are in the payload.
  When there are no such writes the three values are those of the client at the
  call.
\<close>

theorem resume_payload_when_built:
  assumes "running st \<longrightarrow> tg st"
  shows "(let b = apply_writes st (if running st then w1 @ w2 else w2)
          in resume env False w1 w2 st =
               (Inr (), b\<lparr>running := True, con := True, tg := True,
                  trace := trace st @ (if running st then [CancelScope] else []) @
                    [OpenConnection (url st),
                     Send (json_dumps env (JObj [(''op'', JInt 6),
                       (''d'', JObj [(''token'', JStr (token b)), (''session_id'', session_id b),
                                     (''seq'', last_sequence b)])])),
                     CreateTaskGroup, Spawn ReceiveTask, Spawn IdentifyTask]\<rparr>))
       \<and> resume env False [] [] st =
            (Inr (), st\<lparr>running := True, con := True, tg := True,
               trace := trace st @ (if running st then [CancelScope] else []) @
                 [OpenConnection (url st),
                  Send (json_dumps env (JObj [(''op'', JInt 6),
                    (''d'', JObj [(''token'', JStr (token st)), (''session_id'', session_id st),
                                  (''seq'', last_sequence st)])])),
                  CreateTaskGroup, Spawn ReceiveTask, Spawn IdentifyTask]\<rparr>)"
proof -
  have general: "resume env False v1 v2 st =
     (Inr (), (apply_writes st (if running st then v1 @ v2 else v2))
        \<lparr>running := True, con := True, tg := True,
         trace := trace st @ (if running st then [CancelScope] else []) @
           [OpenConnection (url st),
            Send (json_dumps env (JObj [(''op'', JInt 6),
              (''d'', JObj
                 [(''token'', JStr (token (apply_writes st (if running st then v1 @ v2 else v2)))),
                  (''session_id'', session_id (apply_writes st (if running st then v1 @ v2 else v2))),
                  (''seq'', last_sequence (apply_writes st (if running st then v1 @ v2 else v2)))])])),
            CreateTaskGroup, Spawn ReceiveTask, Spawn IdentifyTask]\<rparr>)" for v1 v2
    using assms by (rule resume_result)
  have quiet: "apply_writes st (if running st then [] @ [] else []) = st" by simp
  show ?thesis
    unfolding Let_def using general [of w1 w2] general [of "[]" "[]"] by (simp only: quiet simp_thms)
qed

theorem resume_payload_when_built_witness:
  "running toy_client \<and> tg toy_client
   \<and> resume toy_env False [] [SetToken ''other''] toy_client =
       (Inr (), toy_client\<lparr>running := True, con := True, tg := True, token := ''other'',
          trace := trace toy_client @
            [CancelScope, OpenConnection (url toy_client),
             Send (json_dumps toy_env (JObj [(''op'', JInt 6),
               (''d'', JObj [(''token'', JStr ''other''), (''session_id'', JInt 0), (''seq'', JNull)])])),
             CreateTaskGroup, Spawn ReceiveTask, Spawn IdentifyTask]\<rparr>)"
proof -
  have h: "running toy_client \<longrightarrow> tg toy_client" using toy_fields by simp
  have b: "apply_writes toy_client (if running toy_client then [] @ [SetToken ''other''] else [SetToken ''other''])
      = toy_client\<lparr>token := ''other''\<rparr>"
    using toy_fields by simp
  have "resume toy_env False [] [SetToken ''other''] toy_client =
       (Inr (), (toy_client\<lparr>token := ''other''\<rparr>)\<lparr>running := True, con := True, tg := True,
          trace := trace toy_client @ (if running toy_client then [CancelScope] else []) @
            [OpenConnection (url toy_client),
             Send (json_dumps toy_env (JObj [(''op'', JInt 6),
               (''d'', JObj [(''token'', JStr (token (toy_client\<lparr>token := ''other''\<rparr>))),
                  (''session_id'', session_id (toy_client\<lparr>token := ''other''\<rparr>)),
                  (''seq'', last_sequence (toy_client\<lparr>token := ''other''\<rparr>))])])),
             CreateTaskGroup, Spawn ReceiveTask, Spawn IdentifyTask]\<rparr>)"
    using resume_payload_when_built [OF h, of "[]" "[SetToken ''other'']" toy_env]
    unfolding Let_def b by (rule conjunct1)
  then show ?thesis using toy_fields by simp
qed

text \<open>
  The claim C6 as stated fails: the client has the token \<open>''token''\<close> when
  \<^verbatim>\<open>resume\<close> is called, another task writes \<open>''other''\<close> to \<^verbatim>\<open>_token\<close> (as the first
  statement of \<^verbatim>\<open>start\<close> does) while the connection is being opened, and the text
  sent carries \<open>''other''\<close>: it is not the text of the values at the call.
\<close>

theorem resume_payload_counterexample:
  "token toy_client = ''token''
   \<and> sent (trace (snd (resume toy_env False [] [SetToken ''other''] toy_client))) =
       sent (trace toy_client) @
         [json_dumps toy_env (JObj [(''op'', JInt 6),
            (''d'', JObj [(''token'', JStr ''other''), (''session_id'', JInt 0), (''seq'', JNull)])])]
   \<and> json_dumps toy_env (JObj [(''op'', JInt 6),
        (''d'', JObj [(''token'', JStr ''other''), (''session_id'', JInt 0), (''seq'', JNull)])]) \<noteq>
      json_dumps toy_env (JObj [(''op'', JInt 6),
        (''d'', JObj [(''token'', JStr (token toy_client)), (''session_id'', session_id toy_client),
                      (''seq'', last_sequence toy_client)])])"
proof -
  have h: "running toy_client \<longrightarrow> tg toy_client" using toy_fields by simp
  have 1: "sent (trace (snd (resume toy_env False [] [SetToken ''other''] toy_client))) =
       sent (trace toy_client) @
         [json_dumps toy_env (JObj [(''op'', JInt 6),
            (''d'', JObj [(''token'', JStr ''other''), (''session_id'', JInt 0), (''seq'', JNull)])])]"
    using resume_result [OF h, of toy_env "[]" "[SetToken ''other'']"] toy_fields
    by (simp add: sent_def)
  have 2: "json_dumps toy_env (JObj [(''op'', JInt 6),
        (''d'', JObj [(''token'', JStr ''other''), (''session_id'', JInt 0), (''seq'', JNull)])]) \<noteq>
      json_dumps toy_env (JObj [(''op'', JInt 6),
        (''d'', JObj [(''token'', JStr (token toy_client)), (''session_id'', session_id toy_client),
                      (''seq'', last_sequence toy_client)])])"
    by (simp add: toy_defs quote_def)
  from toy_fields 1 2 show ?thesis by blast
qed

text \<open>
  C7, on a running client: called from outside the task group, \<^verbatim>\<open>resume\<close> cancels the
  scope of the old tasks, opens the connection, sends the resume command and then
  calls \<^verbatim>\<open>on_open\<close>, not \<^verbatim>\<open>on_resume\<close>: it spawns the receive task and the identify
  task, which sends an identify command on the new connection, and it spawns no
  heartbeat task. Called from inside the task group, as \<^verbatim>\<open>_heartbeat\<close> does, it ends
  at the cancellation, with nothing opened, sent or spawned.
\<close>

theorem resume_runs_on_open:
  "resume env False [] [] (st\<lparr>running := True, tg := True\<rparr>) =
     (Inr (), st\<lparr>running := True, con := True, tg := True,
        trace := trace st @
          [CancelScope, OpenConnection (url st),
           Send (json_dumps env (JObj [(''op'', JInt 6),
             (''d'', JObj [(''token'', JStr (token st)), (''session_id'', session_id st),
                           (''seq'', last_sequence st)])])),
           CreateTaskGroup, Spawn ReceiveTask, Spawn IdentifyTask]\<rparr>)
   \<and> Spawn HeartbeatTask \<notin> set (drop (length (trace st))
         (trace (snd (resume env False [] [] (st\<lparr>running := True, tg := True\<rparr>)))))
   \<and> resume env True w1 w2 (st\<lparr>running := True, tg := True\<rparr>) =
       (Inl Cancelled, st\<lparr>running := False, tg := True, trace := trace st @ [CancelScope]\<rparr>)"
  by (simp add: resume_def close_def send_def resolve_RESUME on_open_def Let_def)

section \<open>The heartbeat\<close>

lemma toy_sleep: "sleep_millis (interval toy_client) = Inr 0"
  by (simp add: toy_defs FLOAT_OVERFLOW_def)

lemma toy_sleep_lost: "sleep_millis (interval (toy_client\<lparr>has_ack := False\<rparr>)) = Inr 0"
  by (simp add: toy_defs FLOAT_OVERFLOW_def)

lemma toy_lost:
  "con (toy_client\<lparr>has_ack := False\<rparr>) \<and> running (toy_client\<lparr>has_ack := False\<rparr>)
   \<and> tg (toy_client\<lparr>has_ack := False\<rparr>)"
  by (simp add: toy_defs)

lemma route_ack:
  assumes "getitem message ''op'' = Inr (JInt 11)" and "getitem message ''d'' = Inr data"
  shows "route st message = (Inr (), st\<lparr>has_ack := True\<rparr>)"
  using assms by (simp add: route_def emit_def opcodes_def on_heartbeat_ack_def)

lemma receive_keeps:
  "running (snd (receive env st m)) = running st"
proof -
  have u: "running (snd (unpack env st m)) = running st"
    by (auto simp: unpack_def extend_buffer_def split: frame.splits sum.splits option.splits prod.splits)
  have d: "running (snd (decode_message env s x)) = running s" for s :: "'a client" and x
    by (auto simp: decode_message_def split: sum.splits)
  show ?thesis
  proof (cases "unpack env st m")
    case (Pair r s1)
    with u have "running s1 = running st" by simp
    with Pair d [of s1] show ?thesis by (cases r) (simp_all add: receive_def)
  qed
qed

lemma toy_ack:
  "receive toy_env (toy_client\<lparr>has_ack := False\<rparr>)
       (Binary [0x7b, 0x61, 0x63, 0x6b, 0x7d, 0x00, 0x00, 0xff, 0xff]) =
     (Inr (JObj [(''op'', JInt 11), (''d'', JNull), (''s'', JNull), (''t'', JNull)]),
      toy_client\<lparr>inflator := Suc 0, has_ack := False\<rparr>)"
  by (simp add: receive_def unpack_def extend_buffer_def endswith_def ZLIB_SUFFIX_def
      decode_message_def toy_defs)

lemma toy_after_ack:
  "sleep_millis (interval (toy_client\<lparr>inflator := Suc 0, has_ack := False\<rparr>)) = Inr 0
   \<and> con (toy_client\<lparr>inflator := Suc 0, has_ack := False\<rparr>)
   \<and> running (toy_client\<lparr>inflator := Suc 0, has_ack := False\<rparr>)
   \<and> tg (toy_client\<lparr>inflator := Suc 0, has_ack := False\<rparr>)"
  by (simp add: toy_defs FLOAT_OVERFLOW_def)

text \<open>
  C4: at a tick of a running, connected client whose interval is a number that
  \<^verbatim>\<open>/ 1000\<close> accepts, if the last beat was acknowledged the tick sends one heartbeat
  command (opcode 1) with the last sequence number and the client then awaits the
  acknowledgement; if it was not, the tick is a call of \<^verbatim>\<open>resume\<close> from inside the
  task group, which ends at the cancellation of the scope, and no text is sent. A
  received message with opcode 11 is routed to the handler of the acknowledgement,
  alone and in the receive loop: the client stops awaiting, and the tick after it
  sends a heartbeat.
\<close>

theorem heartbeat_tick:
  assumes "sleep_millis (interval st) = Inr ms" and "con st" and "running st" and "tg st"
  shows "(\<not> awaitingAck st \<longrightarrow>
            heartbeat env w1 w2 st =
              (Inr (), st\<lparr>has_ack := False,
                 trace := trace st @ [Sleep ms,
                   Send (json_dumps env (JObj [(''op'', JInt 1), (''d'', last_sequence st)]))]\<rparr>)
            \<and> awaitingAck (snd (heartbeat env w1 w2 st)))
       \<and> (awaitingAck st \<longrightarrow>
            heartbeat env w1 w2 st = resume env True w1 w2 (st\<lparr>trace := trace st @ [Sleep ms]\<rparr>)
            \<and> heartbeat env w1 w2 st =
                (Inl Cancelled, st\<lparr>running := False, trace := trace st @ [Sleep ms, CancelScope]\<rparr>)
            \<and> sent (trace (snd (heartbeat env w1 w2 st))) = sent (trace st))
       \<and> (getitem message ''op'' = Inr (JInt 11) \<and> getitem message ''d'' = Inr data \<longrightarrow>
            route st message = (Inr (), st\<lparr>has_ack := True\<rparr>)
            \<and> \<not> awaitingAck (snd (route st message))
            \<and> heartbeat env w1 w2 (snd (route st message)) =
                (Inr (), st\<lparr>has_ack := False,
                   trace := trace st @ [Sleep ms,
                     Send (json_dumps env (JObj [(''op'', JInt 1), (''d'', last_sequence st)]))]\<rparr>))
       \<and> (receive env st0 m = (Inr message, st) \<and> getitem message ''op'' = Inr (JInt 11)
            \<and> getitem message ''d'' = Inr data \<longrightarrow>
            receive_task env st0 [m] = (Inr (), st\<lparr>has_ack := True\<rparr>, []))"
proof -
  have beat: "heartbeat env w1 w2 s =
      (Inr (), s\<lparr>has_ack := False,
         trace := trace s @ [Sleep ms,
           Send (json_dumps env (JObj [(''op'', JInt 1), (''d'', last_sequence s)]))]\<rparr>)"
    if "has_ack s" "con s" "sleep_millis (interval s) = Inr ms" for s :: "'a client"
    using that by (simp add: heartbeat_def send_def resolve_opcode_def Let_def)
  have lost: "heartbeat env w1 w2 st = resume env True w1 w2 (st\<lparr>trace := trace st @ [Sleep ms]\<rparr>)"
    if "\<not> has_ack st"
    using that assms by (simp add: heartbeat_def Let_def)
  have cut: "resume env True w1 w2 (st\<lparr>trace := trace st @ [Sleep ms]\<rparr>) =
      (Inl Cancelled, st\<lparr>running := False, trace := trace st @ [Sleep ms, CancelScope]\<rparr>)"
    using assms(3,4) by (simp add: resume_def close_def Let_def)
  have quiet: "sent (trace (snd (heartbeat env w1 w2 st))) = sent (trace st)" if "\<not> has_ack st"
    using lost [OF that] cut by (simp add: sent_def)
  have after: "heartbeat env w1 w2 (st\<lparr>has_ack := True\<rparr>) =
      (Inr (), st\<lparr>has_ack := False,
         trace := trace st @ [Sleep ms,
           Send (json_dumps env (JObj [(''op'', JInt 1), (''d'', last_sequence st)]))]\<rparr>)"
    using beat [of "st\<lparr>has_ack := True\<rparr>"] assms by simp
  have loop: "receive_task env st0 [m] = (Inr (), st\<lparr>has_ack := True\<rparr>, [])"
    if r: "receive env st0 m = (Inr message, st)"
      and o: "getitem message ''op'' = Inr (JInt 11)" and d: "getitem message ''d'' = Inr data"
  proof -
    have "running st0" using receive_keeps [of env st0 m] r assms(3) by simp
    then show ?thesis using r route_ack [OF o d, of st] by simp
  qed
  show ?thesis
    using beat [of st] lost cut quiet after loop route_ack [of message data st] assms
    by (auto simp: awaitingAck_def)
qed

theorem heartbeat_tick_witness:
  "sleep_millis (interval toy_client) = Inr 0 \<and> con toy_client \<and> running toy_client \<and> tg toy_client
   \<and> \<not> awaitingAck toy_client
   \<and> heartbeat toy_env [] [] toy_client =
       (Inr (), toy_client\<lparr>has_ack := False,
          trace := trace toy_client @ [Sleep 0,
            Send (json_dumps toy_env (JObj [(''op'', JInt 1), (''d'', last_sequence toy_client)]))]\<rparr>)
   \<and> awaitingAck (toy_client\<lparr>has_ack := False\<rparr>)
   \<and> heartbeat toy_env [] [] (toy_client\<lparr>has_ack := False\<rparr>) =
       (Inl Cancelled, toy_client\<lparr>running := False, has_ack := False,
          trace := trace toy_client @ [Sleep 0, CancelScope]\<rparr>)
   \<and> receive toy_env (toy_client\<lparr>has_ack := False\<rparr>)
         (Binary [0x7b, 0x61, 0x63, 0x6b, 0x7d, 0x00, 0x00, 0xff, 0xff]) =
       (Inr (JObj [(''op'', JInt 11), (''d'', JNull), (''s'', JNull), (''t'', JNull)]),
        toy_client\<lparr>inflator := Suc 0, has_ack := False\<rparr>)
   \<and> receive_task toy_env (toy_client\<lparr>has_ack := False\<rparr>)
         [Binary [0x7b, 0x61, 0x63, 0x6b, 0x7d, 0x00, 0x00, 0xff, 0xff]] =
       (Inr (), toy_client\<lparr>inflator := Suc 0, has_ack := True\<rparr>, [])
   \<and> heartbeat toy_env [] []
         (snd (route (toy_client\<lparr>inflator := Suc 0, has_ack := False\<rparr>)
            (JObj [(''op'', JInt 11), (''d'', JNull), (''s'', JNull), (''t'', JNull)]))) =
       (Inr (), toy_client\<lparr>inflator := Suc 0, has_ack := False,
          trace := trace toy_client @ [Sleep 0,
            Send (json_dumps toy_env (JObj [(''op'', JInt 1), (''d'', last_sequence toy_client)]))]\<rparr>)"
proof -
  let ?L = "toy_client\<lparr>has_ack := False\<rparr>"
  let ?A = "toy_client\<lparr>inflator := Suc 0, has_ack := False\<rparr>"
  let ?M = "JObj [(''op'', JInt 11), (''d'', JNull), (''s'', JNull), (''t'', JNull)]"
  have a: "\<not> awaitingAck toy_client" by (simp add: awaitingAck_def toy_defs)
  have b: "awaitingAck ?L" by (simp add: awaitingAck_def)
  have g: "getitem ?M ''op'' = Inr (JInt 11) \<and> getitem ?M ''d'' = Inr JNull" by simp
  note ok = heartbeat_tick [OF toy_sleep toy_con conjunct1 [OF conjunct2 [OF conjunct2 [OF conjunct2 [OF toy_fields]]]]
      conjunct2 [OF conjunct2 [OF conjunct2 [OF conjunct2 [OF toy_fields]]]], of toy_env "[]" "[]"]
  note lost = heartbeat_tick [OF toy_sleep_lost conjunct1 [OF toy_lost] conjunct1 [OF conjunct2 [OF toy_lost]]
      conjunct2 [OF conjunct2 [OF toy_lost]], of toy_env "[]" "[]"]
  note ack = heartbeat_tick [OF conjunct1 [OF toy_after_ack] conjunct1 [OF conjunct2 [OF toy_after_ack]]
      conjunct1 [OF conjunct2 [OF conjunct2 [OF toy_after_ack]]]
      conjunct2 [OF conjunct2 [OF conjunct2 [OF toy_after_ack]]],
      of toy_env "[]" "[]" ?M JNull ?L "Binary [0x7b, 0x61, 0x63, 0x6b, 0x7d, 0x00, 0x00, 0xff, 0xff]"]
  have 1: "heartbeat toy_env [] [] toy_client =
       (Inr (), toy_client\<lparr>has_ack := False,
          trace := trace toy_client @ [Sleep 0,
            Send (json_dumps toy_env (JObj [(''op'', JInt 1), (''d'', last_sequence toy_client)]))]\<rparr>)"
    using ok a by blast
  have "heartbeat toy_env [] [] ?L =
       (Inl Cancelled, ?L\<lparr>running := False, trace := trace ?L @ [Sleep 0, CancelScope]\<rparr>)"
    using lost b by blast
  then have 2: "heartbeat toy_env [] [] ?L =
       (Inl Cancelled, toy_client\<lparr>running := False, has_ack := False,
          trace := trace toy_client @ [Sleep 0, CancelScope]\<rparr>)"
    by simp
  have "receive_task toy_env ?L [Binary [0x7b, 0x61, 0x63, 0x6b, 0x7d, 0x00, 0x00, 0xff, 0xff]] =
       (Inr (), ?A\<lparr>has_ack := True\<rparr>, [])"
    using ack toy_ack g by blast
  then have 3: "receive_task toy_env ?L [Binary [0x7b, 0x61, 0x63, 0x6b, 0x7d, 0x00, 0x00, 0xff, 0xff]] =
       (Inr (), toy_client\<lparr>inflator := Suc 0, has_ack := True\<rparr>, [])"
    by simp
  have "heartbeat toy_env [] [] (snd (route ?A ?M)) =
       (Inr (), ?A\<lparr>has_ack := False,
          trace := trace ?A @ [Sleep 0,
            Send (json_dumps toy_env (JObj [(''op'', JInt 1), (''d'', last_sequence ?A)]))]\<rparr>)"
    using ack g by blast
  then have 4: "heartbeat toy_env [] [] (snd (route ?A ?M)) =
       (Inr (), toy_client\<lparr>inflator := Suc 0, has_ack := False,
          trace := trace toy_client @ [Sleep 0,
            Send (json_dumps toy_env (JObj [(''op'', JInt 1), (''d'', last_sequence toy_client)]))]\<rparr>)"
    by simp
  from toy_sleep toy_con toy_fields a 1 b 2 toy_ack 3 4 show ?thesis by blast
qed

text \<open>
  C8, as the code has it: \<^verbatim>\<open>__init__\<close> sets \<^verbatim>\<open>_has_ack\<close> to true, so a new client
  does not await an acknowledgement, and \<^verbatim>\<open>_on_hello\<close> leaves the flag as it finds
  it.
\<close>

theorem has_ack_set_once:
  "\<not> awaitingAck (init env z0 u compressed sid scount)
   \<and> awaitingAck (snd (on_hello st data)) = awaitingAck st"
  by (auto simp: awaitingAck_def init_def format_url_def on_hello_def Let_def split: sum.splits)

text \<open>
  The claim C8 as stated fails: after \<^verbatim>\<open>start\<close> and a hello with an interval of 45000
  the client does not await an acknowledgement, and its first tick sends a heartbeat.
\<close>

theorem first_tick_counterexample:
  "\<not> awaitingAck (snd (on_hello toy_client (JObj [(''heartbeat_interval'', JInt 45000)])))
   \<and> heartbeat toy_env [] [] (snd (on_hello toy_client (JObj [(''heartbeat_interval'', JInt 45000)]))) =
       (Inr (), toy_client\<lparr>interval := JInt 45000, has_ack := False,
          trace := trace toy_client @
            [Spawn HeartbeatTask, Sleep 45000,
             Send (json_dumps toy_env (JObj [(''op'', JInt 1), (''d'', JNull)]))]\<rparr>)"
  by (simp add: awaitingAck_def on_hello_def heartbeat_def send_def resolve_opcode_def Let_def
      FLOAT_OVERFLOW_def toy_defs)

section \<open>Outbound commands\<close>

text \<open>
  C5, at shard 0 of 4: the identify payload has the four fixed keys and no
  \<^verbatim>\<open>'shard'\<close>, because \<^verbatim>\<open>0 and 4\<close> is false; at shard 1 of 4 the key is there.
\<close>

theorem identify_omits_shard_zero:
  "identify_payload env (st\<lparr>shard_id := Some 0, shard_count := Some 4\<rparr>) =
     JObj [(''token'', JStr (token st)),
           (''properties'', JObj [(''$os'', JStr (platform_system env)),
                                  (''$browser'', JStr ''clamor''),
                                  (''$device'', JStr ''clamor'')]),
           (''compress'', JBool True),
           (''large_threshold'', JInt 250)]
   \<and> getitem (identify_payload env (st\<lparr>shard_id := Some 0, shard_count := Some 4\<rparr>)) ''shard'' =
       Inl (KeyError ''shard'')
   \<and> getitem (identify_payload env (st\<lparr>shard_id := Some 1, shard_count := Some 4\<rparr>)) ''shard'' =
       Inr (JList [JInt 1, JInt 4])"
  by (simp add: identify_payload_def truthy_opt_def)

lemma send_codec:
  "send (env\<lparr>encoder_TYPE := ty, encoder_encode := enc, encoder_decode := dec\<rparr>) st opcode data =
     send env st opcode data"
  by (simp add: send_def split: sum.splits)

lemma identify_payload_codec:
  "identify_payload (env\<lparr>encoder_TYPE := ty, encoder_encode := enc, encoder_decode := dec\<rparr>) st =
     identify_payload env st"
  by (simp add: identify_payload_def)

lemma resume_codec:
  "resume (env\<lparr>encoder_TYPE := ty, encoder_encode := enc, encoder_decode := dec\<rparr>) inside w1 w2 st =
     resume env inside w1 w2 st"
  by (simp only: resume_def send_codec)

lemma heartbeat_codec:
  "heartbeat (env\<lparr>encoder_TYPE := ty, encoder_encode := enc, encoder_decode := dec\<rparr>) w1 w2 st =
     heartbeat env w1 w2 st"
  by (simp only: heartbeat_def send_codec resume_codec)

text \<open>
  C9: whatever the configured encoder is, \<^verbatim>\<open>_send\<close> sends \<^verbatim>\<open>json.dumps\<close> of
  \<^verbatim>\<open>{'op': opcode, 'd': data}\<close> when the opcode resolves and there is a connection,
  and nothing otherwise; the text that identify sends is this wrapping of opcode 2
  and its payload, the text that resume sends is this wrapping of opcode 6 and its
  payload, and the text that a heartbeat tick sends is this wrapping of opcode 1 and
  the last sequence number. A resume from inside the task group and a tick without
  acknowledgement send no text.
\<close>

theorem send_json_dumps:
  "send (env\<lparr>encoder_TYPE := ty, encoder_encode := enc, encoder_decode := dec\<rparr>) st opcode data =
     (case resolve_opcode opcode of
        Inl e \<Rightarrow> (Inl e, st)
      | Inr n \<Rightarrow>
          if con st
          then (Inr (), st\<lparr>trace := trace st @
                  [Send (json_dumps env (JObj [(''op'', JInt n), (''d'', data)]))]\<rparr>)
          else (Inl AttributeError, st))
   \<and> (con st \<longrightarrow>
        identify (env\<lparr>encoder_TYPE := ty, encoder_encode := enc, encoder_decode := dec\<rparr>) st =
          (Inr (), st\<lparr>trace := trace st @
             [Send (json_dumps env (JObj [(''op'', JInt 2), (''d'', identify_payload env st)]))]\<rparr>))
   \<and> ((running st \<longrightarrow> tg st) \<longrightarrow>
        resume (env\<lparr>encoder_TYPE := ty, encoder_encode := enc, encoder_decode := dec\<rparr>) False w1 w2 st =
          (Inr (), (apply_writes st (if running st then w1 @ w2 else w2))
             \<lparr>running := True, con := True, tg := True,
              trace := trace st @ (if running st then [CancelScope] else []) @
                [OpenConnection (url st),
                 Send (json_dumps env (JObj [(''op'', JInt 6),
                   (''d'', JObj
                      [(''token'', JStr (token (apply_writes st (if running st then w1 @ w2 else w2)))),
                       (''session_id'', session_id (apply_writes st (if running st then w1 @ w2 else w2))),
                       (''seq'', last_sequence (apply_writes st (if running st then w1 @ w2 else w2)))])])),
                 CreateTaskGroup, Spawn ReceiveTask, Spawn IdentifyTask]\<rparr>))
   \<and> (running st \<and> tg st \<longrightarrow>
        sent (trace (snd (resume (env\<lparr>encoder_TYPE := ty, encoder_encode := enc, encoder_decode := dec\<rparr>)
          True w1 w2 st))) = sent (trace st))
   \<and> (has_ack st \<and> con st \<and> sleep_millis (interval st) = Inr ms \<longrightarrow>
        heartbeat (env\<lparr>encoder_TYPE := ty, encoder_encode := enc, encoder_decode := dec\<rparr>) w1 w2 st =
          (Inr (), st\<lparr>has_ack := False,
             trace := trace st @ [Sleep ms,
               Send (json_dumps env (JObj [(''op'', JInt 1), (''d'', last_sequence st)]))]\<rparr>))
   \<and> (\<not> has_ack st \<and> running st \<and> tg st \<longrightarrow>
        sent (trace (snd (heartbeat (env\<lparr>encoder_TYPE := ty, encoder_encode := enc, encoder_decode := dec\<rparr>)
          w1 w2 st))) = sent (trace st))"
proof -
  have s: "send env st opcode data =
     (case resolve_opcode opcode of
        Inl e \<Rightarrow> (Inl e, st)
      | Inr n \<Rightarrow>
          if con st
          then (Inr (), st\<lparr>trace := trace st @
                  [Send (json_dumps env (JObj [(''op'', JInt n), (''d'', data)]))]\<rparr>)
          else (Inl AttributeError, st))"
    by (simp add: send_def)
  have i: "con st \<longrightarrow> identify env st =
          (Inr (), st\<lparr>trace := trace st @
             [Send (json_dumps env (JObj [(''op'', JInt 2), (''d'', identify_payload env st)]))]\<rparr>)"
    by (simp add: identify_def send_def resolve_IDENTIFY)
  have r: "(running st \<longrightarrow> tg st) \<longrightarrow> resume env False w1 w2 st =
          (Inr (), (apply_writes st (if running st then w1 @ w2 else w2))
             \<lparr>running := True, con := True, tg := True,
              trace := trace st @ (if running st then [CancelScope] else []) @
                [OpenConnection (url st),
                 Send (json_dumps env (JObj [(''op'', JInt 6),
                   (''d'', JObj
                      [(''token'', JStr (token (apply_writes st (if running st then w1 @ w2 else w2)))),
                       (''session_id'', session_id (apply_writes st (if running st then w1 @ w2 else w2))),
                       (''seq'', last_sequence (apply_writes st (if running st then w1 @ w2 else w2)))])])),
                 CreateTaskGroup, Spawn ReceiveTask, Spawn IdentifyTask]\<rparr>)"
    using resume_result [of st env w1 w2] by blast
  have c: "running st \<and> tg st \<longrightarrow> sent (trace (snd (resume env True w1 w2 st))) = sent (trace st)"
    using resume_inside [of st env w1 w2] by (auto simp: sent_def)
  have b: "has_ack st \<and> con st \<and> sleep_millis (interval st) = Inr ms \<longrightarrow>
        heartbeat env w1 w2 st =
          (Inr (), st\<lparr>has_ack := False,
             trace := trace st @ [Sleep ms,
               Send (json_dumps env (JObj [(''op'', JInt 1), (''d'', last_sequence st)]))]\<rparr>)"
    by (simp add: heartbeat_def send_def resolve_opcode_def Let_def)
  have l: "\<not> has_ack st \<and> running st \<and> tg st \<longrightarrow>
        sent (trace (snd (heartbeat env w1 w2 st))) = sent (trace st)"
    by (auto simp: heartbeat_def Let_def resume_def close_def sent_def split: sum.splits)
  from s i r c b l show ?thesis
    by (simp only: send_codec identify_def identify_payload_codec resume_codec heartbeat_codec simp_thms)
qed

theorem send_json_dumps_witness:
  "con toy_client \<and> running toy_client \<and> tg toy_client \<and> has_ack toy_client
   \<and> sleep_millis (interval toy_client) = Inr 0
   \<and> identify toy_env toy_client =
       (Inr (), toy_client\<lparr>trace := trace toy_client @
          [Send (json_dumps toy_env
             (JObj [(''op'', JInt 2), (''d'', identify_payload toy_env toy_client)]))]\<rparr>)
   \<and> heartbeat toy_env [] [] toy_client =
       (Inr (), toy_client\<lparr>has_ack := False,
          trace := trace toy_client @ [Sleep 0,
            Send (json_dumps toy_env (JObj [(''op'', JInt 1), (''d'', last_sequence toy_client)]))]\<rparr>)
   \<and> sent (trace (snd (resume toy_env True [] [] toy_client))) = sent (trace toy_client)"
proof -
  have e: "toy_env\<lparr>encoder_TYPE := encoder_TYPE toy_env, encoder_encode := encoder_encode toy_env,
      encoder_decode := encoder_decode toy_env\<rparr> = toy_env"
    by simp
  have h: "has_ack toy_client" by (simp add: toy_defs)
  note t = send_json_dumps [where env = toy_env and ty = "encoder_TYPE toy_env"
      and enc = "encoder_encode toy_env" and dec = "encoder_decode toy_env" and st = toy_client
      and ms = 0 and ?w1.0 = "[]" and ?w2.0 = "[]", unfolded e]
  from t toy_con toy_fields h toy_sleep show ?thesis by blast
qed

end
